theory Spec2Isabelle
  imports Complex_Main "HOL-Library.Word"
begin

unbundle bit_operations_syntax

section \<open>Data model\<close>

text \<open>
  The driver talks to a spectrometer through libusb-0.1. Bytes are \<open>8 word\<close>, the C
  \<open>int\<close> arguments of the transfer functions are \<open>int\<close> (no computation on them
  comes near the 32-bit limits), \<open>unsigned long\<close> is the 32-bit type of the Visual C++
  target, \<open>uint16_t\<close> and \<open>int16_t\<close> are \<open>16 word\<close> (read with \<open>uint\<close> and
  \<open>sint\<close>). A \<open>float\<close> that holds a number is modelled by the real it denotes;
  where the source computes with floats and the operations round, the result is taken
  from the environment, not computed over the reals.
\<close>

type_synonym byte = "8 word"

text \<open>
  What the device answers to one USB call: an error (the call returns the negative code
  \<open>- (n + 1)\<close>) or the bytes it moves (the call returns their count, \<open>0\<close> for none).
\<close>

datatype usb_reply = Usb_Error nat | Usb_Bytes "byte list"

text \<open>One call of \<open>usb_control_msg\<close>, as the spy on the transport sees it.\<close>

record control_msg =
  msg_requesttype :: int
  msg_request :: int
  msg_value :: int
  msg_index :: int
  msg_bytes :: "byte list"
  msg_timeout :: int

text \<open>
  The fields of the parsed EEPROM that the operations below read. \<open>stringified\<close> is
  the \<open>std::map\<close> from field names to rendered values, as the list of its entries in
  iteration order.
\<close>

record eeprom =
  model :: string
  serialNumber :: string
  excitationNM :: real
  stringified :: "(string \<times> string) list"
  hasCooling :: bool
  minTemperatureDegC :: int
  maxTemperatureDegC :: int
  degCToDACCoeffs :: "real \<times> real \<times> real"
  adcToDegCCoeffs :: "real \<times> real \<times> real"

text \<open>
  The session. \<open>device\<close>, \<open>transfers\<close> and \<open>float_dac\<close> are the environment:
  \<open>device n\<close> is the device's answer to the \<open>n\<close>-th control transfer of the session,
  \<open>transfers\<close> lists the control transfers issued so far, oldest first, and
  \<open>float_dac\<close> is the host's single-precision arithmetic on the setpoint polynomial
  (see \<open>setpoint_word\<close>).
\<close>

record spectrometer =
  pid :: int
  eeprom :: eeprom
  pixels :: int
  wavelengths :: "real list"
  wavenumbers :: "real list"
  integrationTimeMS :: "32 word"
  laserEnabled :: bool
  detectorTECSetpointHasBeenSet :: bool
  device :: "nat \<Rightarrow> usb_reply"
  transfers :: "control_msg list"
  float_dac :: "real \<times> real \<times> real \<Rightarrow> int \<Rightarrow> 16 word"

section \<open>Constants\<close>

definition HOST_TO_DEVICE :: int where
  "HOST_TO_DEVICE = 0x40"

definition DEVICE_TO_HOST :: int where
  "DEVICE_TO_HOST = 0xC0"

definition MIN_ARM_LEN :: int where
  "MIN_ARM_LEN = 8"

definition MAX_UINT24 :: "32 word" where
  "MAX_UINT24 = 16777216"

section \<open>Utility\<close>

definition isARM :: "spectrometer \<Rightarrow> bool" where
  "isARM s = (pid s = 0x4000)"

definition isInGaAs :: "spectrometer \<Rightarrow> bool" where
  "isInGaAs s = (pid s = 0x2000)"

text \<open>\<open>isSuccess\<close> ignores both arguments; the source marks it as to be done.\<close>

definition isSuccess :: "int \<Rightarrow> int \<Rightarrow> bool" where
  "isSuccess opcode result = True"

definition clamp :: "32 word \<Rightarrow> 32 word \<Rightarrow> 32 word \<Rightarrow> 32 word" where
  "clamp v lo hi = (if v < lo then lo else if v > hi then hi else v)"

section \<open>Control messages\<close>

text \<open>
  libusb's \<open>usb_control_msg\<close>: the call is recorded, the device's answer is consumed.
  It returns the result code and the buffer after the call. A host-to-device transfer
  leaves the buffer alone; a device-to-host transfer stores the bytes received at its
  start. The count transferred never exceeds the buffer's size.
\<close>

definition usb_control_msg :: "spectrometer \<Rightarrow> control_msg \<Rightarrow> (int \<times> byte list) \<times> spectrometer" where
  "usb_control_msg s m =
     (let s' = s\<lparr>transfers := transfers s @ [m]\<rparr> in
      case device s (length (transfers s)) of
        Usb_Error n \<Rightarrow> ((- int (Suc n), msg_bytes m), s')
      | Usb_Bytes bs \<Rightarrow>
          (let got = take (length (msg_bytes m)) bs in
           if msg_requesttype m = DEVICE_TO_HOST
           then ((int (length got), got @ drop (length got) (msg_bytes m)), s')
           else ((int (length got), msg_bytes m), s')))"

text \<open>
  \<open>sendCmd\<close> with a pointer and a length: the pair is a byte list, \<open>None\<close> for the
  null pointer (whose length argument is then 0).
\<close>

definition sendCmd :: "spectrometer \<Rightarrow> int \<Rightarrow> int \<Rightarrow> int \<Rightarrow> byte list option \<Rightarrow> int \<times> spectrometer" where
  "sendCmd s request val idx data =
     (let buf = replicate (nat MIN_ARM_LEN) (0 :: byte);
          data' = (if data = None \<and> isARM s then buf
                   else case data of None \<Rightarrow> [] | Some d \<Rightarrow> d);
          timeoutMS = 1000;
          (res, s') = usb_control_msg s
             \<lparr>msg_requesttype = HOST_TO_DEVICE, msg_request = request, msg_value = val,
              msg_index = idx, msg_bytes = data', msg_timeout = timeoutMS\<rparr>
      in (fst res, s'))"

text \<open>
  \<open>getCmd\<close>: the buffer of \<open>len\<close> zero bytes is handed to the transfer and the first
  \<open>result\<close> bytes of it are returned; the loop \<open>for (i = 0; i < result; i++)\<close> does
  not run for a zero or negative result.
\<close>

definition getCmd :: "spectrometer \<Rightarrow> int \<Rightarrow> int \<Rightarrow> int \<Rightarrow> int \<Rightarrow> byte list \<times> spectrometer" where
  "getCmd s request val idx len =
     (let len' = (if isARM s then max MIN_ARM_LEN len else len);
          data = replicate (nat len') (0 :: byte);
          timeoutMS = 1000;
          (res, s') = usb_control_msg s
             \<lparr>msg_requesttype = DEVICE_TO_HOST, msg_request = request, msg_value = val,
              msg_index = idx, msg_bytes = data, msg_timeout = timeoutMS\<rparr>
      in (take (nat (fst res)) (snd res), s'))"

section \<open>Opcodes\<close>

definition setIntegrationTimeMS :: "spectrometer \<Rightarrow> 32 word \<Rightarrow> bool \<times> spectrometer" where
  "setIntegrationTimeMS s ms0 =
     (let ms = clamp ms0 1 (MAX_UINT24 - 1);
          lsw = (ucast (ms AND 0xffff) :: 16 word);
          msw = (ucast (drop_bit 16 ms AND 0x00ff) :: 16 word);
          (result, s1) = sendCmd s 0xb2 (uint lsw) (uint msw) None;
          s2 = s1\<lparr>integrationTimeMS := ms\<rparr>
      in (isSuccess 0xb2 result, s2))"

definition setLaserEnable :: "spectrometer \<Rightarrow> bool \<Rightarrow> bool \<times> spectrometer" where
  "setLaserEnable s flag =
     (let (result, s1) = sendCmd s 0xbe (if flag then 1 else 0) 0 None;
          s2 = s1\<lparr>laserEnabled := flag\<rparr>
      in (isSuccess 0xbe result, s2))"

text \<open>
  The C cast \<open>(int) x\<close> of a floating-point value drops the fraction (towards zero).
\<close>

definition c_int_of :: "real \<Rightarrow> int" where
  "c_int_of x = (if 0 \<le> x then \<lfloor>x\<rfloor> else \<lceil>x\<rceil>)"

text \<open>
  The word that \<open>setDetectorGain\<close> and \<open>setDetectorGainOdd\<close> build. The gain is a
  \<open>float\<close> in \<open>[0, 256)\<close> here; subtracting its integer part and scaling by 256 are
  exact in binary floating point, so the real arithmetic is the float's.
\<close>

definition gain_msb :: "real \<Rightarrow> byte" where
  "gain_msb v = word_of_int (c_int_of v AND 0xff)"

definition gain_lsb :: "real \<Rightarrow> byte" where
  "gain_lsb v = word_of_int (c_int_of ((v - real_of_int (uint (gain_msb v))) * 256) AND 0xff)"

definition gain_word :: "real \<Rightarrow> 16 word" where
  "gain_word v = word_of_int (push_bit 8 (uint (gain_msb v)) OR uint (gain_lsb v))"

definition setDetectorGain :: "spectrometer \<Rightarrow> real \<Rightarrow> bool \<times> spectrometer" where
  "setDetectorGain s v =
     (let op = 0xb7 in
      if v < 0 \<or> v \<ge> 256 then (False, s)
      else (let (result, s1) = sendCmd s op (uint (gain_word v)) 0 None
            in (isSuccess op result, s1)))"

definition setDetectorGainOdd :: "spectrometer \<Rightarrow> real \<Rightarrow> bool \<times> spectrometer" where
  "setDetectorGainOdd s v =
     (let op = 0x9d in
      if v < 0 \<or> v \<ge> 256 then (False, s)
      else (let (result, s1) = sendCmd s op (uint (gain_word v)) 0 None
            in (isSuccess op result, s1)))"

text \<open>
  The offset arrives as an \<open>int16_t\<close>; \<open>*((uint16_t*) &value)\<close> reads the same 16 bits
  as an unsigned number, which is what \<open>sendCmd\<close> receives as its \<open>int\<close> argument.
\<close>

definition setDetectorOffset :: "spectrometer \<Rightarrow> 16 word \<Rightarrow> bool \<times> spectrometer" where
  "setDetectorOffset s v =
     (let op = 0xb6;
          word = v;
          (result, s1) = sendCmd s op (uint word) 0 None
      in (isSuccess op result, s1))"

definition setDetectorOffsetOdd :: "spectrometer \<Rightarrow> 16 word \<Rightarrow> bool \<times> spectrometer" where
  "setDetectorOffsetOdd s v =
     (let op = 0x9c;
          word = v;
          (result, s1) = sendCmd s op (uint word) 0 None
      in (isSuccess op result, s1))"

text \<open>
  The setpoint's DAC word. The source evaluates
  \<open>dac = c[0] + c[1] * degC + c[2] * degC * degC\<close> in single precision, each operation
  rounding, and converts with \<open>(uint16_t)(dac + 0.5)\<close>, which C++ leaves undefined for
  a value outside the range of \<open>uint16_t\<close>. Neither is computed here:
  \<open>float_dac s c degC\<close> is the 16-bit value that the host produces for the coefficients
  \<open>c\<close> and the temperature \<open>degC\<close>, whatever it is. The mask to 12 bits is the
  source's.
\<close>

definition setpoint_word :: "spectrometer \<Rightarrow> int \<Rightarrow> 16 word" where
  "setpoint_word s degC =
     (let dac = float_dac s (degCToDACCoeffs (eeprom s)) degC
      in dac AND 0xfff)"

definition setDetectorTECSetpointDegC :: "spectrometer \<Rightarrow> int \<Rightarrow> bool \<times> spectrometer" where
  "setDetectorTECSetpointDegC s degC =
     (let op = 0xd8 in
      if \<not> hasCooling (eeprom s) then (False, s)
      else if degC < minTemperatureDegC (eeprom s) \<or> degC > maxTemperatureDegC (eeprom s)
      then (False, s)
      else (let word = setpoint_word s degC;
                (result, s1) = sendCmd s op (uint word) 0 None;
                s2 = s1\<lparr>detectorTECSetpointHasBeenSet := True\<rparr>
            in (isSuccess op result, s2)))"

definition setTECEnable :: "spectrometer \<Rightarrow> bool \<Rightarrow> bool \<times> spectrometer" where
  "setTECEnable s flag =
     (let op = 0xd6 in
      if \<not> hasCooling (eeprom s) then (False, s)
      else (let s1 = (if \<not> detectorTECSetpointHasBeenSet s
                      then snd (setDetectorTECSetpointDegC s (minTemperatureDegC (eeprom s)))
                      else s);
                (result, s2) = sendCmd s1 op (if flag then 1 else 0) 0 None
            in (isSuccess op result, s2)))"

text \<open>
  What C++ leaves undefined or hands to a run-time handler is a value of \<open>fault\<close>:
  reading a \<open>std::vector\<close> past its end, reaching the end of a function that must
  return a value, and the invalid-parameter handler of the C run-time library.
\<close>

datatype fault = Out_Of_Bounds_Read | Missing_Return | Invalid_Parameter

text \<open>
  \<open>getDetectorTemperatureRaw\<close> calls \<open>getCmd(op)\<close>; the default length is declared in
  a header that is not part of the sources and is the parameter \<open>len\<close> here.
\<close>

definition getDetectorTemperatureRaw :: "spectrometer \<Rightarrow> int \<Rightarrow> int \<times> spectrometer" where
  "getDetectorTemperatureRaw s len =
     (let (data, s') = getCmd s 0xd7 0 0 len in
      if length data < 2 then (- 1, s')
      else (let raw = (word_of_int (push_bit 8 (uint (data ! 0)) OR uint (data ! 1)) :: 16 word)
            in (uint raw, s')))"

text \<open>
  \<open>getDetectorTemperatureDegC\<close> declares \<open>uint16_t raw = (uint16_t) raw;\<close>: the
  variable is initialised from itself, not from \<open>rawOrError\<close>, so its value is
  indeterminate (the parameter \<open>raw\<close>). The polynomial is computed and logged, and the
  function body ends without a \<open>return\<close> statement.
\<close>

definition getDetectorTemperatureDegC :: "spectrometer \<Rightarrow> int \<Rightarrow> 16 word \<Rightarrow> (fault + real) \<times> spectrometer" where
  "getDetectorTemperatureDegC s len raw =
     (let (rawOrError, s') = getDetectorTemperatureRaw s len in
      if rawOrError < 0 then (Inr (- 999), s')
      else (case adcToDegCCoeffs (eeprom s) of (a0, a1, a2) \<Rightarrow>
              (let degC = a0 + a1 * real_of_int (uint raw)
                             + a2 * real_of_int (uint raw) * real_of_int (uint raw)
               in (Inl Missing_Return, s'))))"

section \<open>Acquisition\<close>

text \<open>
  libusb's \<open>usb_bulk_read\<close> on the spectrum endpoint: the result code and the bytes
  stored at the start of the buffer, never more than the size asked for.
\<close>

definition usb_bulk_read :: "usb_reply \<Rightarrow> int \<Rightarrow> int \<times> byte list" where
  "usb_bulk_read reply sz =
     (case reply of
        Usb_Error n \<Rightarrow> (- int (Suc n), [])
      | Usb_Bytes bs \<Rightarrow> (let got = take (nat sz) bs in (int (length got), got)))"

text \<open>
  The inner loop \<open>for (i = 0; i + 1 < bytesRead; i += 2)\<close> over the bytes read: each
  pair is one pixel, low byte first. A pixel is a \<open>uint16_t\<close>; the \<open>double\<close> it is
  stored as holds the same number.
\<close>

fun decode_pixels :: "byte list \<Rightarrow> 16 word list" where
  "decode_pixels (lo # hi # rest) =
     word_of_int (uint lo OR push_bit 8 (uint hi)) # decode_pixels rest"
| "decode_pixels rest = []"

text \<open>
  The \<open>while\<close> loop of \<open>getSpectrum\<close>. \<open>bulk k\<close> is what the device answers to the
  \<open>k\<close>-th bulk read of the acquisition. Both \<open>break\<close>s leave the loop with
  \<open>spectrum\<close> as it is.
\<close>

function read_loop :: "(nat \<Rightarrow> usb_reply) \<Rightarrow> int \<Rightarrow> nat \<Rightarrow> int \<Rightarrow> int \<Rightarrow> 16 word list \<Rightarrow> 16 word list" where
  "read_loop bulk bytesExpected k totalBytesRead bytesLeftToRead spectrum =
     (if totalBytesRead < bytesExpected then
        (let (bytesRead, buf) = usb_bulk_read (bulk k) bytesLeftToRead in
         if bytesRead \<le> 0 then spectrum
         else if bytesRead mod 2 \<noteq> 0 then spectrum
         else read_loop bulk bytesExpected (Suc k) (totalBytesRead + bytesRead)
                (bytesLeftToRead - bytesRead) (spectrum @ decode_pixels buf))
      else spectrum)"
  by pat_completeness auto
termination
  by (relation "measure (\<lambda>(bulk, bytesExpected, k, totalBytesRead, bytesLeftToRead, spectrum).
        nat (bytesExpected - totalBytesRead))") auto

text \<open>
  \<open>getSpectrum\<close>: the ACQUIRE command, the read loop, and the overwrite of the first
  pixel \<open>spectrum[0] = spectrum[1]\<close>, which the source guards only by
  \<open>spectrum.empty()\<close>.
\<close>

definition getSpectrum :: "spectrometer \<Rightarrow> (nat \<Rightarrow> usb_reply) \<Rightarrow> (fault + 16 word list) \<times> spectrometer" where
  "getSpectrum s bulk =
     (let (r, s1) = sendCmd s 0xad 0 0 None;
          bytesExpected = pixels s1 * 2;
          spectrum = read_loop bulk bytesExpected 0 0 bytesExpected []
      in if spectrum = [] then (Inr spectrum, s1)
         else if \<not> 1 < length spectrum then (Inl Out_Of_Bounds_Read, s1)
         else (Inr (spectrum[0 := spectrum ! 1]), s1))"

section \<open>The flattened C interface\<close>

definition WP_SUCCESS :: int where
  "WP_SUCCESS = 0"

definition WP_ERROR :: int where
  "WP_ERROR = - 1"

definition WP_ERROR_INVALID_SPECTROMETER :: int where
  "WP_ERROR_INVALID_SPECTROMETER = - 2"

definition WP_ERROR_INSUFFICIENT_STORAGE :: int where
  "WP_ERROR_INSUFFICIENT_STORAGE = - 3"

definition WP_ERROR_NO_LASER :: int where
  "WP_ERROR_NO_LASER = - 4"

text \<open>
  The copy loop \<open>for (i = 0; i < v.size(); i++) if (i < len) buf[i] = v[i]; else
  return WP_ERROR_INSUFFICIENT_STORAGE;\<close> that \<open>exportString\<close> and the array getters
  share. It returns the code and the caller's buffer.
\<close>

fun export_loop :: "'a list \<Rightarrow> int \<Rightarrow> int \<Rightarrow> 'a list \<Rightarrow> int \<times> 'a list" where
  "export_loop [] i len buf = (WP_SUCCESS, buf)"
| "export_loop (x # xs) i len buf =
     (if i < len then export_loop xs (i + 1) len (buf[nat i := x])
      else (WP_ERROR_INSUFFICIENT_STORAGE, buf))"

text \<open>\<open>exportString\<close> clears the \<open>len\<close> bytes of the buffer before it copies.\<close>

definition exportString :: "string \<Rightarrow> int \<Rightarrow> int \<times> string" where
  "exportString s len = export_loop s 0 len (replicate (nat len) (CHR 0x00))"

text \<open>
  The getters receive a spectrometer index; \<open>driver->getSpectrometer(specIndex)\<close> is a
  null pointer for an index that names no session, \<open>None\<close> here.
\<close>

definition wp_get_model :: "spectrometer option \<Rightarrow> string \<Rightarrow> int \<Rightarrow> int \<times> string" where
  "wp_get_model spec buf len =
     (case spec of None \<Rightarrow> (WP_ERROR_INVALID_SPECTROMETER, buf)
      | Some sp \<Rightarrow> exportString (model (eeprom sp)) len)"

definition wp_get_serial_number :: "spectrometer option \<Rightarrow> string \<Rightarrow> int \<Rightarrow> int \<times> string" where
  "wp_get_serial_number spec buf len =
     (case spec of None \<Rightarrow> (WP_ERROR_INVALID_SPECTROMETER, buf)
      | Some sp \<Rightarrow> exportString (serialNumber (eeprom sp)) len)"

definition wp_get_wavelengths :: "spectrometer option \<Rightarrow> real list \<Rightarrow> int \<Rightarrow> int \<times> real list" where
  "wp_get_wavelengths spec buf len =
     (case spec of None \<Rightarrow> (WP_ERROR_INVALID_SPECTROMETER, buf)
      | Some sp \<Rightarrow> export_loop (wavelengths sp) 0 len buf)"

definition wp_get_wavenumbers :: "spectrometer option \<Rightarrow> real list \<Rightarrow> int \<Rightarrow> int \<times> real list" where
  "wp_get_wavenumbers spec buf len =
     (case spec of None \<Rightarrow> (WP_ERROR_INVALID_SPECTROMETER, buf)
      | Some sp \<Rightarrow>
          if excitationNM (eeprom sp) \<le> 0 then (WP_ERROR_NO_LASER, buf)
          else export_loop (wavenumbers sp) 0 len buf)"

text \<open>
  \<open>wp_get_spectrum\<close> acquires with \<open>getSpectrum\<close>; an empty vector is its only sign
  of a failed acquisition. The intensities are copied as the \<open>double\<close>s they are stored
  as. The session after the acquisition is returned with the result.
\<close>

definition wp_get_spectrum :: "spectrometer option \<Rightarrow> (nat \<Rightarrow> usb_reply) \<Rightarrow> real list \<Rightarrow> int \<Rightarrow> (fault + int \<times> real list) \<times> spectrometer option" where
  "wp_get_spectrum spec bulk buf len =
     (case spec of None \<Rightarrow> (Inr (WP_ERROR_INVALID_SPECTROMETER, buf), None)
      | Some sp \<Rightarrow>
          (let (r, sp') = getSpectrum sp bulk in
           case r of
             Inl f \<Rightarrow> (Inl f, Some sp')
           | Inr intensities \<Rightarrow>
               if intensities = [] then (Inr (WP_ERROR, buf), Some sp')
               else (Inr (export_loop (map (\<lambda>p. real_of_int (uint p)) intensities) 0 len buf),
                     Some sp')))"

text \<open>
  Modelled from the spec: \<open>Util::toLower\<close>, whose source file is absent; field names are
  addressed case-insensitively, so it maps the letters A to Z to lower case.
\<close>

definition toLower :: "string \<Rightarrow> string" where
  "toLower str = map (\<lambda>c. if 65 \<le> (of_char c :: nat) \<and> (of_char c :: nat) \<le> 90
                          then char_of ((of_char c :: nat) + 32) else c) str"

text \<open>
  \<open>strncpy_s\<close> of the Microsoft C run-time library, as its documentation has it: up to
  \<open>count\<close> characters of the source are copied and a terminating zero is added; when
  that does not fit into the destination's size, the invalid-parameter handler runs.
\<close>

definition strncpy_s :: "string \<Rightarrow> int \<Rightarrow> string \<Rightarrow> nat \<Rightarrow> fault + string" where
  "strncpy_s dest sz src count =
     (let chars = takeWhile (\<lambda>c. c \<noteq> CHR 0x00) (take count src) in
      if int (length chars) < sz
      then Inr (chars @ [CHR 0x00] @ drop (Suc (length chars)) dest)
      else Inl Invalid_Parameter)"

text \<open>
  \<open>wp_get_eeprom_field\<close>: the first entry whose name matches is copied with
  \<open>strncpy_s\<close>, whose result is not looked at, and \<open>WP_SUCCESS\<close> is returned.
\<close>

fun find_field :: "string \<Rightarrow> (string \<times> string) list \<Rightarrow> string \<Rightarrow> int \<Rightarrow> fault + int \<times> string" where
  "find_field lc [] valueOut len = Inr (WP_ERROR, valueOut)"
| "find_field lc ((name, val) # entries) valueOut len =
     (if lc = toLower name
      then (case strncpy_s valueOut len val (length val) of
              Inl f \<Rightarrow> Inl f
            | Inr out \<Rightarrow> Inr (WP_SUCCESS, out))
      else find_field lc entries valueOut len)"

definition wp_get_eeprom_field :: "spectrometer option \<Rightarrow> string \<Rightarrow> string \<Rightarrow> int \<Rightarrow> fault + int \<times> string" where
  "wp_get_eeprom_field spec name valueOut len =
     (case spec of None \<Rightarrow> Inr (WP_ERROR_INVALID_SPECTROMETER, valueOut)
      | Some sp \<Rightarrow> find_field (toLower name) (stringified (eeprom sp)) valueOut len)"

section \<open>A session on the bench\<close>

text \<open>
  A session with a cooled detector of four pixels and no excitation laser, whose device
  acknowledges every control transfer with no data; the operations are evaluated on it at
  concrete inputs. Its setpoint coefficients and temperatures are small integers, on which
  single-precision arithmetic is exact, so its \<open>float_dac\<close> is the polynomial plus one
  half, cut off to an integer.
\<close>

definition bench_eeprom :: eeprom where
  "bench_eeprom = \<lparr>model = ''WP-785'', serialNumber = ''WP-00001'', excitationNM = 0,
     stringified = [(''model'', ''WP-785''), (''serialNumber'', ''WP-00001'')],
     hasCooling = True, minTemperatureDegC = 10, maxTemperatureDegC = 20,
     degCToDACCoeffs = (100, 2, 0), adcToDegCCoeffs = (0, 1, 0)\<rparr>"

definition bench_session :: spectrometer where
  "bench_session = \<lparr>pid = 0x1000, eeprom = bench_eeprom, pixels = 4,
     wavelengths = [0, 1, 2, 3], wavenumbers = [], integrationTimeMS = 3, laserEnabled = False,
     detectorTECSetpointHasBeenSet = False, device = (\<lambda>n. Usb_Bytes []), transfers = [],
     float_dac = (\<lambda>(d0, d1, d2) degC.
        word_of_int (c_int_of (d0 + d1 * real_of_int degC
                                 + d2 * real_of_int degC * real_of_int degC + 0.5)))\<rparr>"

section \<open>Properties\<close>

subsection \<open>Bit masks and the transfer log\<close>

lemma and_ffff_int: "(k :: int) AND 0xffff = k mod 65536"
proof -
  have "k AND mask 16 = take_bit 16 k" by (rule take_bit_eq_mask [symmetric])
  moreover have "take_bit 16 k = k mod 2 ^ 16" by (rule take_bit_eq_mod)
  moreover have "mask 16 = (0xffff :: int)" by (simp add: mask_eq_exp_minus_1)
  ultimately show ?thesis by simp
qed

lemma and_ff_int: "(k :: int) AND 0xff = k mod 256"
proof -
  have "k AND mask 8 = take_bit 8 k" by (rule take_bit_eq_mask [symmetric])
  moreover have "take_bit 8 k = k mod 2 ^ 8" by (rule take_bit_eq_mod)
  moreover have "mask 8 = (0xff :: int)" by (simp add: mask_eq_exp_minus_1)
  ultimately show ?thesis by simp
qed

lemma uint_lsw: "uint (ucast ((ms:: 32 word) AND 0xffff) :: 16 word) = uint ms mod 65536"
proof -
  have "uint (ms AND 0xffff) = uint ms AND 0xffff" by (simp add: uint_and)
  then show ?thesis
    by (simp add: unsigned_ucast_eq take_bit_eq_mod and_ffff_int)
qed

lemma uint_msw: "uint (ucast (drop_bit 16 (ms :: 32 word) AND 0x00ff) :: 16 word) = (uint ms div 65536) mod 256"
proof -
  have "uint (drop_bit 16 ms) = uint ms div 65536"
    by (simp add: drop_bit_eq_div uint_div_distrib)
  moreover have "uint (drop_bit 16 ms AND 0xff) = uint (drop_bit 16 ms) AND 0xff" by (simp add: uint_and)
  ultimately have e: "uint (drop_bit 16 ms AND 0xff) = (uint ms div 65536) mod 256"
    by (simp add: and_ff_int)
  have "uint (ucast (drop_bit 16 ms AND 0x00ff) :: 16 word) = ((uint ms div 65536) mod 256) mod 65536"
    unfolding unsigned_ucast_eq e by (simp add: take_bit_eq_mod)
  then show ?thesis by simp
qed

lemma clamp_range: "1 \<le> clamp ms 1 (MAX_UINT24 - 1) \<and> clamp ms 1 (MAX_UINT24 - 1) \<le> 16777215"
  by (auto simp add: clamp_def MAX_UINT24_def word_le_def word_less_def)

lemma clamp_lo: "ms < 1 \<Longrightarrow> clamp ms 1 (MAX_UINT24 - 1) = 1"
  by (simp add: clamp_def)

lemma clamp_hi: "ms > 16777215 \<Longrightarrow> clamp ms 1 (MAX_UINT24 - 1) = 16777215"
  by (auto simp add: clamp_def MAX_UINT24_def)

lemma usb_control_msg_transfers:
  "transfers (snd (usb_control_msg s m)) = transfers s @ [m]"
  by (simp add: usb_control_msg_def Let_def split: usb_reply.splits)

lemma usb_control_msg_fields:
  "pid (snd (usb_control_msg s m)) = pid s"
  "eeprom (snd (usb_control_msg s m)) = eeprom s"
  "pixels (snd (usb_control_msg s m)) = pixels s"
  "device (snd (usb_control_msg s m)) = device s"
  "detectorTECSetpointHasBeenSet (snd (usb_control_msg s m)) = detectorTECSetpointHasBeenSet s"
  by (simp_all add: usb_control_msg_def Let_def split: usb_reply.splits)

lemma sendCmd_transfers_None:
  "transfers (snd (sendCmd s request val idx None)) = transfers s @
     [\<lparr>msg_requesttype = HOST_TO_DEVICE, msg_request = request, msg_value = val,
       msg_index = idx, msg_bytes = (if isARM s then replicate 8 0 else []), msg_timeout = 1000\<rparr>]"
  by (simp add: sendCmd_def Let_def split_def usb_control_msg_transfers MIN_ARM_LEN_def)

lemma sendCmd_fields:
  "pid (snd (sendCmd s request val idx data)) = pid s"
  "eeprom (snd (sendCmd s request val idx data)) = eeprom s"
  "pixels (snd (sendCmd s request val idx data)) = pixels s"
  "device (snd (sendCmd s request val idx data)) = device s"
  "detectorTECSetpointHasBeenSet (snd (sendCmd s request val idx data)) = detectorTECSetpointHasBeenSet s"
  by (simp_all add: sendCmd_def Let_def split_def usb_control_msg_fields)

lemma setIntegrationTimeMS_stored:
  "integrationTimeMS (snd (setIntegrationTimeMS s ms)) = clamp ms 1 (MAX_UINT24 - 1)"
  by (simp add: setIntegrationTimeMS_def Let_def split_def)

lemma setIntegrationTimeMS_transfers:
  "transfers (snd (setIntegrationTimeMS s ms)) = transfers s @
     [\<lparr>msg_requesttype = HOST_TO_DEVICE, msg_request = 0xb2,
       msg_value = uint (clamp ms 1 (MAX_UINT24 - 1)) mod 65536,
       msg_index = uint (clamp ms 1 (MAX_UINT24 - 1)) div 65536 mod 256,
       msg_bytes = (if isARM s then replicate 8 0 else []), msg_timeout = 1000\<rparr>]"
  by (simp add: setIntegrationTimeMS_def Let_def split_def sendCmd_transfers_None uint_lsw uint_msw)

subsection \<open>Integration time\<close>

text \<open>
  Claim C4. For an integration time below 1 the stored \<open>integrationTimeMS\<close> is 1, for
  one above \<open>2^24 - 1\<close> it is \<open>2^24 - 1\<close>, in both cases not the input. The transfer
  sent carries the stored value as a 16-bit low word (\<open>wValue\<close>) and a high word below
  256 (\<open>wIndex\<close>), which together give the stored 24-bit value back.
\<close>

theorem setIntegrationTimeMS_clamps:
  "(ms < 1 \<longrightarrow> integrationTimeMS (snd (setIntegrationTimeMS s ms)) = 1) \<and>
   (16777215 < ms \<longrightarrow> integrationTimeMS (snd (setIntegrationTimeMS s ms)) = 16777215) \<and>
   ((ms < 1 \<or> 16777215 < ms) \<longrightarrow> integrationTimeMS (snd (setIntegrationTimeMS s ms)) \<noteq> ms) \<and>
   (\<exists>m. transfers (snd (setIntegrationTimeMS s ms)) = transfers s @ [m] \<and>
        msg_requesttype m = HOST_TO_DEVICE \<and> msg_request m = 0xb2 \<and>
        msg_value m = uint (integrationTimeMS (snd (setIntegrationTimeMS s ms))) mod 65536 \<and>
        msg_index m = uint (integrationTimeMS (snd (setIntegrationTimeMS s ms))) div 65536 \<and>
        msg_index m < 256 \<and>
        msg_value m + 65536 * msg_index m = uint (integrationTimeMS (snd (setIntegrationTimeMS s ms))))"
proof -
  let ?c = "clamp ms 1 (MAX_UINT24 - 1)"
  have st: "integrationTimeMS (snd (setIntegrationTimeMS s ms)) = ?c"
    by (rule setIntegrationTimeMS_stored)
  have "?c \<le> 16777215" using clamp_range by blast
  then have ub: "uint ?c \<le> 16777215" by (simp add: word_le_def)
  then have small: "uint ?c div 65536 < 256" by simp
  have "0 \<le> uint ?c div 65536" by (simp add: pos_imp_zdiv_nonneg_iff)
  with small have idx: "uint ?c div 65536 mod 256 = uint ?c div 65536" by simp
  have lo: "ms < 1 \<longrightarrow> ?c = 1" by (simp add: clamp_lo)
  have hi: "16777215 < ms \<longrightarrow> ?c = 16777215" by (simp add: clamp_hi)
  have ne: "(ms < 1 \<or> 16777215 < ms) \<longrightarrow> ?c \<noteq> ms" using lo hi by auto
  have tr: "\<exists>m. transfers (snd (setIntegrationTimeMS s ms)) = transfers s @ [m] \<and>
        msg_requesttype m = HOST_TO_DEVICE \<and> msg_request m = 0xb2 \<and>
        msg_value m = uint ?c mod 65536 \<and> msg_index m = uint ?c div 65536 \<and>
        msg_index m < 256 \<and> msg_value m + 65536 * msg_index m = uint ?c"
    using small by (simp add: setIntegrationTimeMS_transfers idx)
  show ?thesis unfolding st using lo hi ne tr by blast
qed

theorem setIntegrationTimeMS_clamps_witness:
  "(0 :: 32 word) < 1 \<and> integrationTimeMS (snd (setIntegrationTimeMS bench_session 0)) = 1 \<and>
   (16777215 :: 32 word) < 20000000 \<and>
   integrationTimeMS (snd (setIntegrationTimeMS bench_session 20000000)) = 16777215"
  using setIntegrationTimeMS_clamps [of 0 bench_session]
        setIntegrationTimeMS_clamps [of 20000000 bench_session]
  by simp


subsection \<open>Detector offset\<close>

lemma uint_eq_sint_mod: "uint (v :: 16 word) = sint v mod 65536"
proof -
  have "uint v = (uint v) mod 65536" using uint_lt2p[of v] by simp
  also have "\<dots> = sint v mod 65536"
    by (simp add: sint_uint signed_take_bit_eq_take_bit_shift take_bit_eq_mod mod_diff_left_eq)
  finally show ?thesis .
qed

lemma setDetectorOffset_transfers:
  "transfers (snd (setDetectorOffset s v)) = transfers s @
     [\<lparr>msg_requesttype = HOST_TO_DEVICE, msg_request = 0xb6, msg_value = uint v,
       msg_index = 0, msg_bytes = (if isARM s then replicate 8 0 else []), msg_timeout = 1000\<rparr>]"
  by (simp add: setDetectorOffset_def Let_def split_def sendCmd_transfers_None)

lemma setDetectorOffsetOdd_transfers:
  "transfers (snd (setDetectorOffsetOdd s v)) = transfers s @
     [\<lparr>msg_requesttype = HOST_TO_DEVICE, msg_request = 0x9c, msg_value = uint v,
       msg_index = 0, msg_bytes = (if isARM s then replicate 8 0 else []), msg_timeout = 1000\<rparr>]"
  by (simp add: setDetectorOffsetOdd_def Let_def split_def sendCmd_transfers_None)

text \<open>
  Claim C6. For every signed 16-bit offset \<open>i\<close>, held in the \<open>int16_t\<close> argument
  \<open>word_of_int i\<close>, the word that \<open>setDetectorOffset\<close> (opcode 0xb6) and
  \<open>setDetectorOffsetOdd\<close> (opcode 0x9c) transmit is the two's-complement pattern of
  \<open>i\<close>: \<open>i\<close> itself when it is not negative and \<open>65536 + i\<close> when it is. The witness
  has the values of the spec: -1 gives 0xFFFF, 0 gives 0x0000, 32767 gives 0x7FFF.
\<close>

theorem setDetectorOffset_twos_complement:
  assumes "- 32768 \<le> i" and "i \<le> 32767"
  shows "sint (word_of_int i :: 16 word) = i \<and>
         map msg_value (transfers (snd (setDetectorOffset s (word_of_int i)))) =
           map msg_value (transfers s) @ [if i < 0 then 65536 + i else i] \<and>
         map msg_value (transfers (snd (setDetectorOffsetOdd s (word_of_int i)))) =
           map msg_value (transfers s) @ [if i < 0 then 65536 + i else i] \<and>
         map msg_request (transfers (snd (setDetectorOffset s (word_of_int i)))) =
           map msg_request (transfers s) @ [0xb6] \<and>
         map msg_request (transfers (snd (setDetectorOffsetOdd s (word_of_int i)))) =
           map msg_request (transfers s) @ [0x9c]"
proof -
  have s: "sint (word_of_int i :: 16 word) = i"
    using assms by (simp add: signed_of_int signed_take_bit_int_eq_self)
  have "uint (word_of_int i :: 16 word) = i mod 65536"
    using uint_eq_sint_mod [of "word_of_int i"] s by simp
  also have "i mod 65536 = (if i < 0 then 65536 + i else i)"
  proof (cases "i < 0")
    case True
    then have "(i + 65536) mod 65536 = i + 65536" using assms by (intro mod_pos_pos_trivial) simp_all
    then show ?thesis using True by simp
  next
    case False
    then show ?thesis using assms by simp
  qed
  finally have u: "uint (word_of_int i :: 16 word) = (if i < 0 then 65536 + i else i)" .
  show ?thesis
    using s u by (simp add: setDetectorOffset_transfers setDetectorOffsetOdd_transfers)
qed

theorem setDetectorOffset_twos_complement_witness:
  "map msg_value (transfers (snd (setDetectorOffset bench_session (word_of_int (- 1))))) = [0xFFFF] \<and>
   map msg_value (transfers (snd (setDetectorOffset bench_session (word_of_int 0)))) = [0x0000] \<and>
   map msg_value (transfers (snd (setDetectorOffset bench_session (word_of_int 32767)))) = [0x7FFF] \<and>
   map msg_value (transfers (snd (setDetectorOffsetOdd bench_session (word_of_int (- 1))))) = [0xFFFF]"
  using setDetectorOffset_twos_complement [of "- 1" bench_session]
        setDetectorOffset_twos_complement [of 0 bench_session]
        setDetectorOffset_twos_complement [of 32767 bench_session]
  by (simp add: bench_session_def)

subsection \<open>Command channel\<close>

lemma getCmd_transfers:
  "transfers (snd (getCmd s request val idx len)) = transfers s @
     [\<lparr>msg_requesttype = DEVICE_TO_HOST, msg_request = request, msg_value = val, msg_index = idx,
       msg_bytes = replicate (nat (if isARM s then max 8 len else len)) 0, msg_timeout = 1000\<rparr>]"
  by (simp add: getCmd_def Let_def split_def usb_control_msg_transfers MIN_ARM_LEN_def)

lemma getCmd_nonpositive:
  "fst (fst (usb_control_msg s
       \<lparr>msg_requesttype = DEVICE_TO_HOST, msg_request = request, msg_value = val, msg_index = idx,
        msg_bytes = replicate (nat (if isARM s then max 8 len else len)) 0, msg_timeout = 1000\<rparr>)) \<le> 0
   \<Longrightarrow> fst (getCmd s request val idx len) = []"
  by (cases "isARM s") (simp_all add: getCmd_def Let_def split_def MIN_ARM_LEN_def)

text \<open>
  Claim C8. On the ARM family a \<open>sendCmd\<close> without payload transfers eight zero bytes,
  and a \<open>getCmd\<close> asks for at least eight bytes whatever length the caller gave. On
  every family, when the transfer \<open>m\<close> that \<open>getCmd\<close> issues returns a negative or
  zero count, \<open>getCmd\<close> returns the empty byte sequence.
\<close>

theorem command_channel_padding:
  "(isARM s \<longrightarrow>
      transfers (snd (sendCmd s request val idx None)) = transfers s @
        [\<lparr>msg_requesttype = HOST_TO_DEVICE, msg_request = request, msg_value = val,
          msg_index = idx, msg_bytes = replicate 8 0, msg_timeout = 1000\<rparr>]) \<and>
   (isARM s \<longrightarrow>
      transfers (snd (getCmd s request val idx len)) = transfers s @
        [\<lparr>msg_requesttype = DEVICE_TO_HOST, msg_request = request, msg_value = val,
          msg_index = idx, msg_bytes = replicate (nat (max 8 len)) 0, msg_timeout = 1000\<rparr>]) \<and>
   (transfers (snd (getCmd s request val idx len)) = transfers s @ [m] \<and>
    fst (fst (usb_control_msg s m)) \<le> 0
    \<longrightarrow> fst (getCmd s request val idx len) = [])"
proof -
  have "fst (getCmd s request val idx len) = []"
    if "transfers (snd (getCmd s request val idx len)) = transfers s @ [m]"
      and "fst (fst (usb_control_msg s m)) \<le> 0"
  proof -
    from that(1) have "m = \<lparr>msg_requesttype = DEVICE_TO_HOST, msg_request = request,
        msg_value = val, msg_index = idx,
        msg_bytes = replicate (nat (if isARM s then max 8 len else len)) 0, msg_timeout = 1000\<rparr>"
      by (simp add: getCmd_transfers)
    with that(2) show ?thesis by (simp add: getCmd_nonpositive)
  qed
  then show ?thesis
    by (simp add: sendCmd_transfers_None getCmd_transfers)
qed

theorem command_channel_padding_witness:
  "isARM (bench_session\<lparr>pid := 0x4000, device := (\<lambda>n. Usb_Error 0)\<rparr>) \<and>
   map msg_bytes (transfers (snd (sendCmd (bench_session\<lparr>pid := 0x4000, device := (\<lambda>n. Usb_Error 0)\<rparr>) 0xad 0 0 None)))
     = [[0, 0, 0, 0, 0, 0, 0, 0]] \<and>
   map (length \<circ> msg_bytes) (transfers (snd (getCmd (bench_session\<lparr>pid := 0x4000, device := (\<lambda>n. Usb_Error 0)\<rparr>) 0xd7 0 0 2)))
     = [8] \<and>
   fst (getCmd (bench_session\<lparr>pid := 0x4000, device := (\<lambda>n. Usb_Error 0)\<rparr>) 0xd7 0 0 2) = []"
proof -
  let ?s = "bench_session\<lparr>pid := 0x4000, device := (\<lambda>n. Usb_Error 0)\<rparr>"
  let ?m = "\<lparr>msg_requesttype = DEVICE_TO_HOST, msg_request = 0xd7, msg_value = 0,
          msg_index = 0, msg_bytes = replicate 8 (0 :: byte), msg_timeout = 1000\<rparr>"
  have arm: "isARM ?s" by (simp add: isARM_def)
  have neg: "fst (fst (usb_control_msg ?s ?m)) \<le> 0" by (simp add: usb_control_msg_def)
  have empty: "transfers ?s = []" by (simp add: bench_session_def)
  show ?thesis
    using arm neg empty
      command_channel_padding [of ?s "0xad" 0 0 2 ?m]
      command_channel_padding [of ?s "0xd7" 0 0 2 ?m]
    by (simp add: eval_nat_numeral)
qed

subsection \<open>The result of a settor\<close>

text \<open>
  Claim C3. The claim has a failed control transfer reported as a failure. The device here
  rejects every transfer: \<open>sendCmd\<close> returns -1 and \<open>setIntegrationTimeMS\<close> and
  \<open>setLaserEnable\<close> still report success, because \<open>isSuccess\<close> does not look at the
  result.
\<close>

theorem settors_report_success_on_failed_transfer:
  "fst (sendCmd (bench_session\<lparr>device := (\<lambda>n. Usb_Error 0)\<rparr>) 0xb2 100 0 None) = - 1 \<and>
   fst (setIntegrationTimeMS (bench_session\<lparr>device := (\<lambda>n. Usb_Error 0)\<rparr>) 100) = True \<and>
   fst (sendCmd (bench_session\<lparr>device := (\<lambda>n. Usb_Error 0)\<rparr>) 0xbe 1 0 None) = - 1 \<and>
   fst (setLaserEnable (bench_session\<lparr>device := (\<lambda>n. Usb_Error 0)\<rparr>) True) = True"
  by (simp add: sendCmd_def usb_control_msg_def setIntegrationTimeMS_def setLaserEnable_def
        isSuccess_def Let_def split_def)


subsection \<open>Detector gain\<close>

lemma push_bit_8_or: "0 \<le> b \<Longrightarrow> b < 256 \<Longrightarrow> push_bit 8 a OR b = 256 * a + (b :: int)"
proof -
  assume "0 \<le> b" "b < 256"
  then have tb: "take_bit 8 b = b" by (simp add: take_bit_int_eq_self)
  have "push_bit 8 a AND take_bit 8 b = 0" by (auto simp: bit_eq_iff bit_simps)
  then have "push_bit 8 a + take_bit 8 b = push_bit 8 a OR take_bit 8 b"
    by (rule disjunctive_add_eq_or)
  then show ?thesis by (simp add: tb push_bit_eq_mult)
qed

lemma q88_word: 
  assumes "0 \<le> a" "a < 256" "0 \<le> b" "b < 256"
  shows "uint (word_of_int (push_bit 8 a OR b) :: 16 word) = 256 * a + b"
proof -
  have "0 \<le> 256 * a + b" "256 * a + b < 65536" using assms by linarith+
  then have "(256 * a + b) mod 65536 = 256 * a + b" by (rule mod_pos_pos_trivial)
  then show ?thesis
    by (simp only: push_bit_8_or [OF assms(3) assms(4)] uint_word_of_int) simp
qed

lemma q88_div_mod:
  assumes "0 \<le> b" "b < 256"
  shows "(256 * a + b) div 256 = a" and "(256 * a + b) mod 256 = (b :: int)"
  using assms by (simp_all add: div_pos_pos_trivial mod_pos_pos_trivial)

lemma q88_error:
  fixes v a b :: real
  assumes "b \<le> (v - a) * 256" and "(v - a) * 256 < b + 1"
  shows "0 \<le> v - (a + b / 256)" and "v - (a + b / 256) < 1 / 256"
proof -
  show "0 \<le> v - (a + b / 256)" using assms(1) by (simp add: field_simps)
  show "v - (a + b / 256) < 1 / 256" using assms(2) by (simp add: field_simps)
qed

lemma gain_bytes:
  assumes "0 \<le> v" and "v < 256"
  shows "uint (gain_msb v) = \<lfloor>v\<rfloor>"
    and "uint (gain_lsb v) = \<lfloor>(v - real_of_int \<lfloor>v\<rfloor>) * 256\<rfloor>"
    and "0 \<le> \<lfloor>v\<rfloor>" and "\<lfloor>v\<rfloor> < 256"
    and "0 \<le> \<lfloor>(v - real_of_int \<lfloor>v\<rfloor>) * 256\<rfloor>" and "\<lfloor>(v - real_of_int \<lfloor>v\<rfloor>) * 256\<rfloor> < 256"
proof -
  show a0: "0 \<le> \<lfloor>v\<rfloor>" using assms by simp
  show a1: "\<lfloor>v\<rfloor> < 256" using assms by (simp add: floor_less_iff)
  have "c_int_of v AND 0xff = \<lfloor>v\<rfloor>"
    using a0 a1 assms by (simp add: c_int_of_def and_ff_int)
  then show m: "uint (gain_msb v) = \<lfloor>v\<rfloor>"
    using a0 a1 by (simp add: gain_msb_def uint_word_of_int)
  let ?f = "(v - real_of_int \<lfloor>v\<rfloor>) * 256"
  have f0: "0 \<le> ?f" by simp
  have "v - real_of_int \<lfloor>v\<rfloor> < 1" by linarith
  then have f1: "?f < 256" by simp
  show b0: "0 \<le> \<lfloor>?f\<rfloor>" using f0 by simp
  show b1: "\<lfloor>?f\<rfloor> < 256" using f1 by (simp add: floor_less_iff)
  have "c_int_of ?f AND 0xff = \<lfloor>?f\<rfloor>"
    using b0 b1 f0 by (simp add: c_int_of_def and_ff_int)
  then show "uint (gain_lsb v) = \<lfloor>?f\<rfloor>"
    using b0 b1 by (simp add: gain_lsb_def m uint_word_of_int)
qed

lemma gain_word_value:
  assumes "0 \<le> v" and "v < 256"
  shows "uint (gain_word v) = 256 * \<lfloor>v\<rfloor> + \<lfloor>(v - real_of_int \<lfloor>v\<rfloor>) * 256\<rfloor>"
proof -
  note g = gain_bytes [OF assms]
  show ?thesis
    unfolding gain_word_def g(1) g(2) using g(3) g(4) g(5) g(6) by (rule q88_word)
qed

lemma setDetectorGain_transfers:
  "0 \<le> v \<Longrightarrow> v < 256 \<Longrightarrow> transfers (snd (setDetectorGain s v)) = transfers s @
     [\<lparr>msg_requesttype = HOST_TO_DEVICE, msg_request = 0xb7, msg_value = uint (gain_word v),
       msg_index = 0, msg_bytes = (if isARM s then replicate 8 0 else []), msg_timeout = 1000\<rparr>]"
  by (simp add: setDetectorGain_def Let_def split_def sendCmd_transfers_None)

lemma setDetectorGainOdd_transfers:
  "0 \<le> v \<Longrightarrow> v < 256 \<Longrightarrow> transfers (snd (setDetectorGainOdd s v)) = transfers s @
     [\<lparr>msg_requesttype = HOST_TO_DEVICE, msg_request = 0x9d, msg_value = uint (gain_word v),
       msg_index = 0, msg_bytes = (if isARM s then replicate 8 0 else []), msg_timeout = 1000\<rparr>]"
  by (simp add: setDetectorGainOdd_def Let_def split_def sendCmd_transfers_None)

text \<open>
  Claim C5, as amended. For every gain \<open>v\<close> in \<open>[0, 256)\<close> the word that
  \<open>setDetectorGain\<close> (opcode 0xb7) and \<open>setDetectorGainOdd\<close> (opcode 0x9d) send has
  the integer part of \<open>v\<close> as its high byte and the fraction times 256, cut off to an
  integer, as its low byte; read as a multiple of 1/256 the word is at most \<open>v\<close> and
  less than 1/256 below it. For every \<open>v\<close> outside \<open>[0, 256)\<close> both settors return
  failure and leave the session, and with it the list of transfers, as it was.
\<close>

theorem setDetectorGain_truncates:
  "(0 \<le> v \<and> v < 256 \<longrightarrow>
      uint (gain_word v) div 256 = \<lfloor>v\<rfloor> \<and>
      uint (gain_word v) mod 256 = \<lfloor>(v - real_of_int \<lfloor>v\<rfloor>) * 256\<rfloor> \<and>
      0 \<le> v - real_of_int (uint (gain_word v)) / 256 \<and>
      v - real_of_int (uint (gain_word v)) / 256 < 1 / 256 \<and>
      fst (setDetectorGain s v) = True \<and>
      fst (setDetectorGainOdd s v) = True \<and>
      map msg_request (transfers (snd (setDetectorGain s v))) = map msg_request (transfers s) @ [0xb7] \<and>
      map msg_value (transfers (snd (setDetectorGain s v))) = map msg_value (transfers s) @ [uint (gain_word v)] \<and>
      map msg_request (transfers (snd (setDetectorGainOdd s v))) = map msg_request (transfers s) @ [0x9d] \<and>
      map msg_value (transfers (snd (setDetectorGainOdd s v))) = map msg_value (transfers s) @ [uint (gain_word v)]) \<and>
   (v < 0 \<or> 256 \<le> v \<longrightarrow>
      setDetectorGain s v = (False, s) \<and> setDetectorGainOdd s v = (False, s))"
proof -
  have inside: "uint (gain_word v) div 256 = \<lfloor>v\<rfloor> \<and>
      uint (gain_word v) mod 256 = \<lfloor>(v - real_of_int \<lfloor>v\<rfloor>) * 256\<rfloor> \<and>
      0 \<le> v - real_of_int (uint (gain_word v)) / 256 \<and>
      v - real_of_int (uint (gain_word v)) / 256 < 1 / 256"
    if d: "0 \<le> v" "v < 256"
  proof -
    let ?a = "\<lfloor>v\<rfloor>" and ?b = "\<lfloor>(v - real_of_int \<lfloor>v\<rfloor>) * 256\<rfloor>"
    note g = gain_bytes [OF d]
    have w: "uint (gain_word v) = 256 * ?a + ?b" by (rule gain_word_value [OF d])
    have hi: "(256 * ?a + ?b) div 256 = ?a" using g(5) g(6) by (rule q88_div_mod)
    have lo: "(256 * ?a + ?b) mod 256 = ?b" using g(5) g(6) by (rule q88_div_mod)
    have r: "real_of_int (256 * ?a + ?b) / 256 = real_of_int ?a + real_of_int ?b / 256"
      by (simp only: of_int_add of_int_mult add_divide_distrib)
    have le: "real_of_int ?b \<le> (v - real_of_int ?a) * 256" by (rule of_int_floor_le)
    have lt: "(v - real_of_int ?a) * 256 < real_of_int ?b + 1" by linarith
    have e0: "0 \<le> v - real_of_int (256 * ?a + ?b) / 256"
      unfolding r using le lt by (rule q88_error)
    have e1: "v - real_of_int (256 * ?a + ?b) / 256 < 1 / 256"
      unfolding r using le lt by (rule q88_error)
    show ?thesis unfolding w using hi lo e0 e1 by blast
  qed
  have sent: "fst (setDetectorGain s v) = True \<and> fst (setDetectorGainOdd s v) = True"
    if "0 \<le> v" "v < 256"
    using that by (simp add: setDetectorGain_def setDetectorGainOdd_def isSuccess_def Let_def split_def)
  have rejected: "setDetectorGain s v = (False, s) \<and> setDetectorGainOdd s v = (False, s)"
    if "v < 0 \<or> 256 \<le> v"
    using that by (auto simp add: setDetectorGain_def setDetectorGainOdd_def)
  show ?thesis
    using inside sent rejected
    by (simp add: setDetectorGain_transfers setDetectorGainOdd_transfers)
qed

theorem setDetectorGain_truncates_witness:
  "map msg_value (transfers (snd (setDetectorGain bench_session (3 / 2)))) = [0x0180] \<and>
   map msg_value (transfers (snd (setDetectorGainOdd bench_session (3 / 2)))) = [0x0180] \<and>
   setDetectorGain bench_session 256 = (False, bench_session) \<and>
   setDetectorGain bench_session (- 1) = (False, bench_session)"
proof -
  have w: "uint (gain_word (3 / 2)) = 0x0180"
    by (simp add: gain_word_def gain_lsb_def gain_msb_def c_int_of_def)
  have e: "transfers bench_session = []" by (simp add: bench_session_def)
  show ?thesis
    using setDetectorGain_truncates [of "3 / 2" bench_session]
      setDetectorGain_truncates [of 256 bench_session]
      setDetectorGain_truncates [of "- 1" bench_session]
    by (simp add: w e)
qed

text \<open>
  Claim C5 as stated has the low byte rounded. For the gain 3/1024 the fraction times 256
  is 3/4, which rounds to 1; the low byte sent is 0.
\<close>

theorem setDetectorGain_round_counterexample:
  "(0 :: real) \<le> 3 / 1024 \<and> (3 / 1024 :: real) < 256 \<and>
   round ((3 / 1024 - real_of_int \<lfloor>3 / 1024 :: real\<rfloor>) * 256 :: real) = 1 \<and>
   uint (gain_lsb (3 / 1024)) = 0 \<and>
   map msg_value (transfers (snd (setDetectorGain bench_session (3 / 1024)))) = [0x0000]"
  by (simp add: round_def gain_word_def gain_lsb_def gain_msb_def c_int_of_def
        setDetectorGain_def sendCmd_def usb_control_msg_def Let_def split_def bench_session_def)


subsection \<open>Thermoelectric cooler\<close>

lemma setDetectorTECSetpointDegC_sent:
  assumes "hasCooling (eeprom s)"
    and "minTemperatureDegC (eeprom s) \<le> degC" and "degC \<le> maxTemperatureDegC (eeprom s)"
  shows "transfers (snd (setDetectorTECSetpointDegC s degC)) = transfers s @
     [\<lparr>msg_requesttype = HOST_TO_DEVICE, msg_request = 0xd8,
       msg_value = uint (setpoint_word s degC),
       msg_index = 0, msg_bytes = (if isARM s then replicate 8 0 else []), msg_timeout = 1000\<rparr>]"
    and "detectorTECSetpointHasBeenSet (snd (setDetectorTECSetpointDegC s degC))"
    and "pid (snd (setDetectorTECSetpointDegC s degC)) = pid s"
  using assms
  by (simp_all add: setDetectorTECSetpointDegC_def Let_def split_def sendCmd_transfers_None
        sendCmd_fields)

lemma setTECEnable_transfers:
  assumes "hasCooling (eeprom s)"
  shows "transfers (snd (setTECEnable s flag)) =
     transfers (if \<not> detectorTECSetpointHasBeenSet s
                then snd (setDetectorTECSetpointDegC s (minTemperatureDegC (eeprom s))) else s) @
     [\<lparr>msg_requesttype = HOST_TO_DEVICE, msg_request = 0xd6,
       msg_value = (if flag then 1 else 0), msg_index = 0,
       msg_bytes = (if isARM (if \<not> detectorTECSetpointHasBeenSet s
                then snd (setDetectorTECSetpointDegC s (minTemperatureDegC (eeprom s))) else s)
                    then replicate 8 0 else []),
       msg_timeout = 1000\<rparr>]"
  using assms
  by (simp add: setTECEnable_def Let_def split_def sendCmd_transfers_None)

text \<open>
  Claim C7, as amended. Without the cooling flag \<open>setTECEnable\<close> returns failure and
  leaves the session, and with it the list of transfers, as it was. With the flag, no
  setpoint set so far, and a calibrated minimum that is not above the calibrated maximum,
  it reports success after exactly two transfers: the setpoint (opcode 0xd8) for the
  calibrated minimum, then the enable (opcode 0xd6); the setpoint gate is true afterwards.
\<close>

theorem setTECEnable_defaults_setpoint:
  "(\<not> hasCooling (eeprom s) \<longrightarrow> setTECEnable s flag = (False, s)) \<and>
   (hasCooling (eeprom s) \<and> \<not> detectorTECSetpointHasBeenSet s \<and>
    minTemperatureDegC (eeprom s) \<le> maxTemperatureDegC (eeprom s) \<longrightarrow>
      fst (setTECEnable s flag) = True \<and>
      detectorTECSetpointHasBeenSet (snd (setTECEnable s flag)) \<and>
      transfers (snd (setTECEnable s flag)) = transfers s @
        [\<lparr>msg_requesttype = HOST_TO_DEVICE, msg_request = 0xd8,
          msg_value = uint (setpoint_word s (minTemperatureDegC (eeprom s))),
          msg_index = 0, msg_bytes = (if isARM s then replicate 8 0 else []),
          msg_timeout = 1000\<rparr>,
         \<lparr>msg_requesttype = HOST_TO_DEVICE, msg_request = 0xd6,
          msg_value = (if flag then 1 else 0),
          msg_index = 0, msg_bytes = (if isARM s then replicate 8 0 else []),
          msg_timeout = 1000\<rparr>])"
proof -
  have no_cooling: "setTECEnable s flag = (False, s)" if "\<not> hasCooling (eeprom s)"
    using that by (simp add: setTECEnable_def)
  have first_enable:
    "fst (setTECEnable s flag) = True \<and>
      detectorTECSetpointHasBeenSet (snd (setTECEnable s flag)) \<and>
      transfers (snd (setTECEnable s flag)) = transfers s @
        [\<lparr>msg_requesttype = HOST_TO_DEVICE, msg_request = 0xd8,
          msg_value = uint (setpoint_word s (minTemperatureDegC (eeprom s))),
          msg_index = 0, msg_bytes = (if isARM s then replicate 8 0 else []),
          msg_timeout = 1000\<rparr>,
         \<lparr>msg_requesttype = HOST_TO_DEVICE, msg_request = 0xd6,
          msg_value = (if flag then 1 else 0),
          msg_index = 0, msg_bytes = (if isARM s then replicate 8 0 else []),
          msg_timeout = 1000\<rparr>]"
    if c: "hasCooling (eeprom s)" and g: "\<not> detectorTECSetpointHasBeenSet s"
      and m: "minTemperatureDegC (eeprom s) \<le> maxTemperatureDegC (eeprom s)"
  proof -
    let ?s1 = "snd (setDetectorTECSetpointDegC s (minTemperatureDegC (eeprom s)))"
    note sp = setDetectorTECSetpointDegC_sent [OF c order_refl m]
    have arm: "isARM ?s1 = isARM s" by (simp add: isARM_def sp(3))
    have ok: "fst (setTECEnable s flag) = True"
      using c by (simp add: setTECEnable_def isSuccess_def Let_def split_def)
    have gate: "detectorTECSetpointHasBeenSet (snd (setTECEnable s flag))"
      using c g sp(2) by (simp add: setTECEnable_def Let_def split_def sendCmd_fields)
    have "transfers (snd (setTECEnable s flag)) = transfers ?s1 @
       [\<lparr>msg_requesttype = HOST_TO_DEVICE, msg_request = 0xd6,
         msg_value = (if flag then 1 else 0), msg_index = 0,
         msg_bytes = (if isARM s then replicate 8 0 else []), msg_timeout = 1000\<rparr>]"
      using g arm by (simp add: setTECEnable_transfers [OF c])
    then show ?thesis using ok gate by (simp add: sp(1))
  qed
  show ?thesis using no_cooling first_enable by blast
qed

theorem setTECEnable_defaults_setpoint_witness:
  "map msg_request (transfers (snd (setTECEnable bench_session True))) = [0xd8, 0xd6] \<and>
   map msg_value (transfers (snd (setTECEnable bench_session True))) = [120, 1] \<and>
   setTECEnable (bench_session\<lparr>eeprom := bench_eeprom\<lparr>hasCooling := False\<rparr>\<rparr>) True =
     (False, bench_session\<lparr>eeprom := bench_eeprom\<lparr>hasCooling := False\<rparr>\<rparr>)"
proof -
  have w: "uint (setpoint_word bench_session 10) = 120"
    by (simp add: setpoint_word_def bench_session_def bench_eeprom_def c_int_of_def)
  have b: "eeprom bench_session = bench_eeprom" "transfers bench_session = []"
    "\<not> detectorTECSetpointHasBeenSet bench_session"
    by (simp_all add: bench_session_def)
  have e: "hasCooling bench_eeprom" "minTemperatureDegC bench_eeprom = 10"
    "maxTemperatureDegC bench_eeprom = 20"
    by (simp_all add: bench_eeprom_def)
  show ?thesis
    using setTECEnable_defaults_setpoint [of bench_session True]
      setTECEnable_defaults_setpoint [of "bench_session\<lparr>eeprom := bench_eeprom\<lparr>hasCooling := False\<rparr>\<rparr>" True]
    by (simp add: b e w)
qed

text \<open>
  Claim C7 as stated has the setpoint transfer on every first enable. A calibration whose
  minimum (30) lies above its maximum (20) makes \<open>setDetectorTECSetpointDegC\<close> reject
  the minimum: the enable is the only transfer and the gate stays false.
\<close>

theorem setTECEnable_setpoint_counterexample:
  "hasCooling (eeprom (bench_session\<lparr>eeprom := bench_eeprom\<lparr>minTemperatureDegC := 30\<rparr>\<rparr>)) \<and>
   \<not> detectorTECSetpointHasBeenSet (bench_session\<lparr>eeprom := bench_eeprom\<lparr>minTemperatureDegC := 30\<rparr>\<rparr>) \<and>
   fst (setTECEnable (bench_session\<lparr>eeprom := bench_eeprom\<lparr>minTemperatureDegC := 30\<rparr>\<rparr>) True) = True \<and>
   map msg_request (transfers (snd (setTECEnable
      (bench_session\<lparr>eeprom := bench_eeprom\<lparr>minTemperatureDegC := 30\<rparr>\<rparr>) True))) = [0xd6] \<and>
   \<not> detectorTECSetpointHasBeenSet (snd (setTECEnable
      (bench_session\<lparr>eeprom := bench_eeprom\<lparr>minTemperatureDegC := 30\<rparr>\<rparr>) True))"
  by (simp add: setTECEnable_def setDetectorTECSetpointDegC_def sendCmd_def usb_control_msg_def
        isSuccess_def Let_def split_def bench_session_def bench_eeprom_def)


subsection \<open>Acquisition\<close>

text \<open>
  The loop's equation is unfolded by hand: once per iteration in the lemmas on one
  iteration, as a rewrite rule only where the replies are concrete.
\<close>

declare read_loop.simps [simp del]

lemma read_loop_abort:
  assumes "totalBytesRead < bytesExpected"
    and "fst (usb_bulk_read (bulk k) bytesLeftToRead) \<le> 0 \<or>
         fst (usb_bulk_read (bulk k) bytesLeftToRead) mod 2 \<noteq> 0"
  shows "read_loop bulk bytesExpected k totalBytesRead bytesLeftToRead spectrum = spectrum"
  using assms by (subst read_loop.simps) (auto simp add: Let_def split_def)

lemma read_loop_step:
  assumes "totalBytesRead < bytesExpected"
    and "0 < fst (usb_bulk_read (bulk k) bytesLeftToRead)"
    and "fst (usb_bulk_read (bulk k) bytesLeftToRead) mod 2 = 0"
  shows "read_loop bulk bytesExpected k totalBytesRead bytesLeftToRead spectrum =
         read_loop bulk bytesExpected (Suc k)
           (totalBytesRead + fst (usb_bulk_read (bulk k) bytesLeftToRead))
           (bytesLeftToRead - fst (usb_bulk_read (bulk k) bytesLeftToRead))
           (spectrum @ decode_pixels (snd (usb_bulk_read (bulk k) bytesLeftToRead)))"
  using assms by (subst read_loop.simps) (simp add: Let_def split_def)

lemma read_loop_done:
  "\<not> totalBytesRead < bytesExpected \<Longrightarrow>
   read_loop bulk bytesExpected k totalBytesRead bytesLeftToRead spectrum = spectrum"
  by (subst read_loop.simps) simp

lemma getSpectrum_result:
  "fst (getSpectrum s bulk) =
     (let spectrum = read_loop bulk (pixels s * 2) 0 0 (pixels s * 2) [] in
      if spectrum = [] then Inr []
      else if \<not> 1 < length spectrum then Inl Out_Of_Bounds_Read
      else Inr (spectrum[0 := spectrum ! 1]))"
  by (simp add: getSpectrum_def Let_def split_def sendCmd_fields)

lemma getSpectrum_first_read_fails:
  assumes "fst (usb_bulk_read (bulk 0) (pixels s * 2)) \<le> 0 \<or>
           fst (usb_bulk_read (bulk 0) (pixels s * 2)) mod 2 \<noteq> 0"
  shows "fst (getSpectrum s bulk) = Inr []"
proof -
  have "read_loop bulk (pixels s * 2) 0 0 (pixels s * 2) [] = []"
  proof (cases "0 < pixels s * 2")
    case True
    then show ?thesis using assms by (rule read_loop_abort)
  next
    case False
    then show ?thesis by (rule read_loop_done)
  qed
  then show ?thesis by (simp add: getSpectrum_result)
qed

text \<open>
  Claim C1. The claim has every acquisition in which a read fails before \<open>pixels * 2\<close>
  bytes have accumulated return the empty sequence, the partial data discarded. That holds
  when the first read fails (the lemma above). With four pixels expected, a first read of
  four bytes and a second read that returns -1, the loop gives up and \<open>getSpectrum\<close>
  returns the two pixels decoded so far, the first overwritten by the second;
  \<open>wp_get_spectrum\<close>, which knows a failed acquisition by the empty vector only, copies
  the two pixels into the caller's four and reports success.
\<close>

theorem getSpectrum_returns_partial_data:
  "pixels bench_session * 2 = 8 \<and>
   usb_bulk_read (Usb_Bytes [10, 0, 20, 0]) 8 = (4, [10, 0, 20, 0]) \<and>
   usb_bulk_read (Usb_Error 0) (8 - 4) = (- 1, []) \<and>
   read_loop (\<lambda>k. if k = 0 then Usb_Bytes [10, 0, 20, 0] else Usb_Error 0) 8 0 0 8 [] = [10, 20] \<and>
   fst (getSpectrum bench_session (\<lambda>k. if k = 0 then Usb_Bytes [10, 0, 20, 0] else Usb_Error 0))
     = Inr [20, 20] \<and>
   fst (wp_get_spectrum (Some bench_session)
          (\<lambda>k. if k = 0 then Usb_Bytes [10, 0, 20, 0] else Usb_Error 0) [0, 0, 0, 0] 4)
     = Inr (WP_SUCCESS, [20, 20, 0, 0])"
  by (simp add: wp_get_spectrum_def getSpectrum_def sendCmd_def usb_control_msg_def Let_def
      split_def bench_session_def read_loop.simps usb_bulk_read_def)

text \<open>
  Claim C10. The claim has at least two pixels in every non-empty spectrum. With four
  pixels expected, a first read of two bytes and a failing second read, the loop leaves
  one pixel, and \<open>spectrum[0] = spectrum[1]\<close> reads past the end of the vector.
\<close>

theorem getSpectrum_single_pixel_out_of_bounds:
  "usb_bulk_read (Usb_Bytes [10, 0]) 8 = (2, [10, 0]) \<and>
   usb_bulk_read (Usb_Error 0) (8 - 2) = (- 1, []) \<and>
   read_loop (\<lambda>k. if k = 0 then Usb_Bytes [10, 0] else Usb_Error 0) 8 0 0 8 [] = [10] \<and>
   fst (getSpectrum bench_session (\<lambda>k. if k = 0 then Usb_Bytes [10, 0] else Usb_Error 0))
     = Inl Out_Of_Bounds_Read"
  by (simp add: getSpectrum_def sendCmd_def usb_control_msg_def Let_def split_def bench_session_def
      read_loop.simps usb_bulk_read_def)

text \<open>
  The spec's example: the pixels 10, 20, 30, 40 come back as 20, 20, 30, 40. The pixels of
  successive reads are put one after the other: with eight pixels expected and reads of
  four bytes, four bytes and -1, the four pixels of the two reads come back.
\<close>

lemma getSpectrum_four_pixels:
  "fst (getSpectrum bench_session (\<lambda>k. Usb_Bytes [10, 0, 20, 0, 30, 0, 40, 0])) = Inr [20, 20, 30, 40]"
  by (simp add: getSpectrum_def sendCmd_def usb_control_msg_def Let_def split_def bench_session_def
      read_loop.simps usb_bulk_read_def)

lemma getSpectrum_two_chunks:
  "fst (getSpectrum (bench_session\<lparr>pixels := 8\<rparr>)
          (\<lambda>k. if k = 0 then Usb_Bytes [10, 0, 20, 0]
               else if k = 1 then Usb_Bytes [30, 0, 40, 0] else Usb_Error 0))
     = Inr [20, 20, 30, 40]"
  by (simp add: getSpectrum_def sendCmd_def usb_control_msg_def Let_def split_def bench_session_def
      read_loop.simps usb_bulk_read_def)


subsection \<open>Detector temperature\<close>

lemma getDetectorTemperatureDegC_no_value:
  "0 \<le> fst (getDetectorTemperatureRaw s len) \<Longrightarrow>
   fst (getDetectorTemperatureDegC s len raw) = Inl Missing_Return"
  by (simp add: getDetectorTemperatureDegC_def Let_def split_def)

lemma getDetectorTemperatureDegC_sentinel:
  "fst (getDetectorTemperatureRaw s len) < 0 \<Longrightarrow>
   fst (getDetectorTemperatureDegC s len raw) = Inr (- 999)"
  by (simp add: getDetectorTemperatureDegC_def Let_def split_def)

text \<open>
  Claim C2. The claim has the calibration polynomial of the raw reading returned. The
  device here answers the temperature request with the bytes 0x01 0x02, the raw reading is
  258, and with the coefficients (0, 1, 0) the claim's value is 258 degrees. The function
  reaches its end without returning a value, whatever the indeterminate \<open>raw\<close> is.
  With a one-byte answer the raw reading is -1 and the sentinel -999 is returned, as
  claimed.
\<close>

theorem getDetectorTemperatureDegC_returns_nothing:
  "fst (getDetectorTemperatureRaw (bench_session\<lparr>device := (\<lambda>n. Usb_Bytes [0x01, 0x02])\<rparr>) 2) = 258 \<and>
   adcToDegCCoeffs (eeprom bench_session) = (0, 1, 0) \<and>
   (\<forall>raw. fst (getDetectorTemperatureDegC
                 (bench_session\<lparr>device := (\<lambda>n. Usb_Bytes [0x01, 0x02])\<rparr>) 2 raw)
          = Inl Missing_Return) \<and>
   fst (getDetectorTemperatureRaw (bench_session\<lparr>device := (\<lambda>n. Usb_Bytes [0x01])\<rparr>) 2) = - 1 \<and>
   (\<forall>raw. fst (getDetectorTemperatureDegC
                 (bench_session\<lparr>device := (\<lambda>n. Usb_Bytes [0x01])\<rparr>) 2 raw)
          = Inr (- 999))"
proof -
  have two: "fst (getDetectorTemperatureRaw
      (bench_session\<lparr>device := (\<lambda>n. Usb_Bytes [0x01, 0x02])\<rparr>) 2) = 258"
    by code_simp
  have one: "fst (getDetectorTemperatureRaw
      (bench_session\<lparr>device := (\<lambda>n. Usb_Bytes [0x01])\<rparr>) 2) = - 1"
    by code_simp
  have c: "adcToDegCCoeffs (eeprom bench_session) = (0, 1, 0)"
    by (simp add: bench_session_def bench_eeprom_def)
  show ?thesis
    using two one c
    by (simp add: getDetectorTemperatureDegC_no_value getDetectorTemperatureDegC_sentinel)
qed

subsection \<open>Output buffers of the C interface\<close>

text \<open>
  The copy loop, started at index \<open>k\<close> on a buffer of \<open>len\<close> elements: when the rest
  of the value fits, it is written at \<open>k\<close> and the loop succeeds; when it does not, the
  loop returns the insufficient-storage code.
\<close>

lemma export_loop_fits:
  "length buf = nat len \<Longrightarrow> k + length xs \<le> nat len \<Longrightarrow>
   export_loop xs (int k) len buf = (WP_SUCCESS, take k buf @ xs @ drop (k + length xs) buf)"
proof (induction xs arbitrary: k buf)
  case Nil
  then show ?case by simp
next
  case (Cons x xs)
  have k: "int k < len" using Cons.prems by simp
  have lb: "k < length buf" using Cons.prems by simp
  have "export_loop (x # xs) (int k) len buf = export_loop xs (int (Suc k)) len (buf[k := x])"
    using k by (simp add: add.commute)
  also have "\<dots> = (WP_SUCCESS, take (Suc k) (buf[k := x]) @ xs @ drop (Suc k + length xs) (buf[k := x]))"
    using Cons.prems by (intro Cons.IH) simp_all
  also have "take (Suc k) (buf[k := x]) = take k buf @ [x]"
    using lb by (simp add: take_Suc_conv_app_nth)
  also have "drop (Suc k + length xs) (buf[k := x]) = drop (k + length (x # xs)) buf"
    by simp
  finally show ?case by simp
qed

lemma export_loop_too_long:
  "int k \<le> len \<Longrightarrow> nat len < k + length xs \<Longrightarrow>
   fst (export_loop xs (int k) len buf) = WP_ERROR_INSUFFICIENT_STORAGE"
proof (induction xs arbitrary: k buf)
  case Nil
  then show ?case by simp
next
  case (Cons x xs)
  show ?case
  proof (cases "int k < len")
    case True
    have "export_loop (x # xs) (int k) len buf = export_loop xs (int (Suc k)) len (buf[k := x])"
      using True by (simp add: add.commute)
    moreover have "fst (export_loop xs (int (Suc k)) len (buf[k := x])) = WP_ERROR_INSUFFICIENT_STORAGE"
      using True Cons.prems by (intro Cons.IH) simp_all
    ultimately show ?thesis by simp
  next
    case False
    then show ?thesis by simp
  qed
qed

lemma exportString_fits:
  "0 \<le> len \<Longrightarrow> int (length s) \<le> len \<Longrightarrow>
   exportString s len = (WP_SUCCESS, s @ replicate (nat len - length s) (CHR 0x00))"
  using export_loop_fits [of "replicate (nat len) (CHR 0x00)" len 0 s]
  by (simp add: exportString_def)

lemma exportString_too_long:
  "0 \<le> len \<Longrightarrow> len < int (length s) \<Longrightarrow>
   fst (exportString s len) = WP_ERROR_INSUFFICIENT_STORAGE"
  using export_loop_too_long [of 0 len s]
  by (simp add: exportString_def)

lemma wp_get_wavelengths_fits:
  "length buf = nat len \<Longrightarrow> int (length (wavelengths sp)) \<le> len \<Longrightarrow>
   wp_get_wavelengths (Some sp) buf len =
     (WP_SUCCESS, wavelengths sp @ drop (length (wavelengths sp)) buf)"
  using export_loop_fits [of buf len 0 "wavelengths sp"]
  by (simp add: wp_get_wavelengths_def)

lemma wp_get_wavelengths_too_long:
  "0 \<le> len \<Longrightarrow> len < int (length (wavelengths sp)) \<Longrightarrow>
   fst (wp_get_wavelengths (Some sp) buf len) = WP_ERROR_INSUFFICIENT_STORAGE"
  using export_loop_too_long [of 0 len "wavelengths sp"]
  by (simp add: wp_get_wavelengths_def)

lemma find_field_never_insufficient:
  "find_field lc entries valueOut len \<noteq> Inr (WP_ERROR_INSUFFICIENT_STORAGE, out)"
  by (induction entries)
     (auto simp add: WP_ERROR_INSUFFICIENT_STORAGE_def WP_ERROR_def WP_SUCCESS_def
        split: sum.splits if_splits)


text \<open>
  Claim C9. \<open>exportString\<close> and the array getters behave as claimed (the lemmas above).
  \<open>wp_get_eeprom_field\<close> copies into the caller's buffer too, with \<open>strncpy_s\<close>: for
  the six characters of the model and a buffer of three, or of six, \<open>wp_get_model\<close>
  returns the insufficient-storage code or succeeds, and \<open>wp_get_eeprom_field\<close> ends in
  the run-time library's invalid-parameter handler. No call of it returns the
  insufficient-storage code.
\<close>

theorem wp_get_eeprom_field_too_small:
  "model (eeprom bench_session) = ''WP-785'' \<and>
   stringified (eeprom bench_session) = [(''model'', ''WP-785''), (''serialNumber'', ''WP-00001'')] \<and>
   wp_get_model (Some bench_session) ''xxx'' 3 = (WP_ERROR_INSUFFICIENT_STORAGE, ''WP-'') \<and>
   wp_get_eeprom_field (Some bench_session) ''model'' ''xxx'' 3 = Inl Invalid_Parameter \<and>
   wp_get_eeprom_field (Some bench_session) ''model'' ''xxxxxx'' 6 = Inl Invalid_Parameter \<and>
   (\<forall>name valueOut len out. wp_get_eeprom_field (Some bench_session) name valueOut len
       \<noteq> Inr (WP_ERROR_INSUFFICIENT_STORAGE, out))"
proof -
  have "wp_get_model (Some bench_session) ''xxx'' 3 = (WP_ERROR_INSUFFICIENT_STORAGE, ''WP-'')"
    by (simp add: wp_get_model_def exportString_def bench_session_def bench_eeprom_def
          eval_nat_numeral)
  moreover have "wp_get_eeprom_field (Some bench_session) ''model'' ''xxx'' 3 = Inl Invalid_Parameter"
    by (simp add: wp_get_eeprom_field_def strncpy_s_def toLower_def bench_session_def
          bench_eeprom_def Let_def)
  moreover have "wp_get_eeprom_field (Some bench_session) ''model'' ''xxxxxx'' 6 = Inl Invalid_Parameter"
    by (simp add: wp_get_eeprom_field_def strncpy_s_def toLower_def bench_session_def
          bench_eeprom_def Let_def)
  moreover have "\<forall>name valueOut len out. wp_get_eeprom_field (Some bench_session) name valueOut len
       \<noteq> Inr (WP_ERROR_INSUFFICIENT_STORAGE, out)"
    by (simp add: wp_get_eeprom_field_def find_field_never_insufficient)
  ultimately show ?thesis
    by (simp add: bench_session_def bench_eeprom_def)
qed

end
